theory Spec2Isabelle
  imports Main
begin

unbundle bit_operations_syntax

section \<open>Python values, exceptions and the calling convention\<close>

text \<open>
  The module \<^verbatim>\<open>tarantool/lts/space.py\<close> is a class \<^verbatim>\<open>Space\<close> whose methods forward
  to a connection object. The values that travel through it are Python objects: records and
  keys are tuples of scalars, flags are booleans or \<^verbatim>\<open>None\<close>, select options are integers.
\<close>

datatype pyval =
    PNone
  | PBool bool
  | PInt int
  | PStr string
  | PTuple "pyval list"

text \<open>Truth value testing, as \<^verbatim>\<open>X if return_tuple else 0\<close> performs it.\<close>

fun truthy :: "pyval \<Rightarrow> bool" where
  "truthy PNone = False"
| "truthy (PBool b) = b"
| "truthy (PInt i) = (i \<noteq> 0)"
| "truthy (PStr s) = (s \<noteq> [])"
| "truthy (PTuple xs) = (xs \<noteq> [])"

text \<open>
  \<open>TypeError\<close> is what the interpreter raises when the arguments of a call do not fit
  the signature. Everything else is raised inside the connection; the module neither
  defines nor catches an exception, so one constructor carries them all.
\<close>

datatype error =
    TypeError
  | ConnectionRaised string

text \<open>
  A signature \<^verbatim>\<open>def f(self, p1, ..., pn=dn, *args, **kwargs)\<close>: the names of the
  positional-or-keyword parameters in order (the receiver first), the defaults, and
  whether a \<^verbatim>\<open>*args\<close> and a \<^verbatim>\<open>**kwargs\<close> parameter are there.
\<close>

record signature =
  params :: "string list"
  defaults :: "(string \<times> pyval) list"
  var_args :: bool
  var_kwargs :: bool

text \<open>
  The outcome of binding a call: the value of every named parameter, the surplus
  positional arguments (\<^verbatim>\<open>*args\<close>) and the surplus keyword arguments (\<^verbatim>\<open>**kwargs\<close>).
\<close>

record binding =
  named :: "(string \<times> pyval) list"
  args :: "pyval list"
  kwargs :: "(string \<times> pyval) list"

text \<open>
  Binding the arguments of a call \<^verbatim>\<open>f(*pos, **kw)\<close>, as the interpreter does before
  the body runs. Each failure is a \<^verbatim>\<open>TypeError\<close>: too many positional arguments, a
  repeated keyword, a parameter given both by position and by name, a keyword
  that names no parameter when there is no \<^verbatim>\<open>**kwargs\<close>, a parameter without
  value or default.
\<close>

definition bind_args ::
  "signature \<Rightarrow> pyval list \<Rightarrow> (string \<times> pyval) list \<Rightarrow> error + binding" where
  "bind_args sg pos kw =
     (let ps = params sg;
          by_pos = zip ps pos;
          by_name = filter (\<lambda>(k, v). k \<in> set ps) kw;
          extra = filter (\<lambda>(k, v). k \<notin> set ps) kw;
          given = by_pos @ by_name
      in if length ps < length pos \<and> \<not> var_args sg then Inl TypeError
         else if \<not> distinct (map fst kw) then Inl TypeError
         else if list_ex (\<lambda>(k, v). k \<in> set (map fst by_pos)) kw then Inl TypeError
         else if extra \<noteq> [] \<and> \<not> var_kwargs sg then Inl TypeError
         else if list_ex (\<lambda>p. map_of given p = None \<and> map_of (defaults sg) p = None) ps
           then Inl TypeError
         else Inr \<lparr> named = map (\<lambda>p. (p, case map_of given p of
                                             Some v \<Rightarrow> v
                                           | None \<Rightarrow> (case map_of (defaults sg) p of
                                                        Some d \<Rightarrow> d
                                                      | None \<Rightarrow> PNone))) ps,
                    args = drop (length ps) pos,
                    kwargs = extra \<rparr>)"

text \<open>Reading a bound parameter inside the body.\<close>

definition param :: "binding \<Rightarrow> string \<Rightarrow> pyval" where
  "param b p = (case map_of (named b) p of Some v \<Rightarrow> v | None \<Rightarrow> PNone)"

text \<open>\<^verbatim>\<open>d.get(k, default)\<close> on a dictionary of keyword arguments.\<close>

definition dict_get :: "(string \<times> pyval) list \<Rightarrow> string \<Rightarrow> pyval \<Rightarrow> pyval" where
  "dict_get d k dflt = (case map_of d k of Some v \<Rightarrow> v | None \<Rightarrow> dflt)"

text \<open>
  In a method call \<^verbatim>\<open>obj.m(*pos, **kw)\<close> the receiver takes the first positional
  slot, so a keyword called \<^verbatim>\<open>self\<close> collides with it. The receiver itself is
  threaded through the model as a separate argument; \<open>PNone\<close> only fills its slot.
\<close>

definition bind_method ::
  "signature \<Rightarrow> pyval list \<Rightarrow> (string \<times> pyval) list \<Rightarrow> error + binding" where
  "bind_method sg pos kw = bind_args sg (PNone # pos) kw"

section \<open>The connection\<close>

text \<open>
  The constants \<^verbatim>\<open>BOX_RETURN_TUPLE\<close>, \<^verbatim>\<open>BOX_ADD\<close> and \<^verbatim>\<open>BOX_REPLACE\<close> are imported
  from \<^verbatim>\<open>tarantool.lts.const\<close>; their values are parameters of the model.
\<close>

record box_const =
  BOX_RETURN_TUPLE :: int
  BOX_ADD :: int
  BOX_REPLACE :: int

text \<open>The requests the module hands to the connection, one constructor per method called.\<close>

datatype request =
    Insert_req int pyval int
  | Delete_req int pyval pyval
  | Update_req int pyval pyval pyval
  | Select_req int pyval pyval pyval pyval
  | Call_req pyval "pyval list" "(string \<times> pyval) list"

text \<open>
  Modelled from the spec: the connection class is the collaborator of this module, with
  the interface \<^verbatim>\<open>connection.defaultReturnTuple: bool\<close>,
  \<^verbatim>\<open>connection.schema.resolveSpaceId(nameOrId) -> int\<close> (failing for an unknown space)
  and one request method per verb, each returning a result or failing. What a request
  method answers is a parameter: any function of the requests received so far and of the
  request itself. The connection records the requests it has received.
\<close>

record connection =
  return_tuple :: bool
  schema_space_no :: "pyval \<Rightarrow> error + int"
  reply :: "request list \<Rightarrow> request \<Rightarrow> error + pyval"
  received :: "request list"

text \<open>
  Connections are shared objects: a \<^verbatim>\<open>Space\<close> holds a reference, and the store maps
  references to the current state of each connection.
\<close>

type_synonym addr = nat
type_synonym store = "addr \<Rightarrow> connection"

definition send :: "addr \<Rightarrow> request \<Rightarrow> store \<Rightarrow> (error + pyval) \<times> store" where
  "send a r \<sigma> =
     (let c = \<sigma> a
      in (reply c (received c) r, \<sigma>(a := c\<lparr>received := received c @ [r]\<rparr>)))"

section \<open>The class Space\<close>

record space =
  connection :: addr
  space_no :: int

text \<open>\<^verbatim>\<open>Space.__init__(self, connection, space_name)\<close>\<close>

definition space_init :: "addr \<Rightarrow> pyval \<Rightarrow> store \<Rightarrow> error + space" where
  "space_init conn space_name \<sigma> =
     (case schema_space_no (\<sigma> conn) space_name of
        Inl e \<Rightarrow> Inl e
      | Inr n \<Rightarrow> Inr \<lparr> connection = conn, space_no = n \<rparr>)"

text \<open>
  A method returns the value or the exception of the call, the receiver and the store,
  both as the call leaves them.
\<close>

type_synonym outcome = "(error + pyval) \<times> space \<times> store"

text \<open>
  \<^verbatim>\<open>if return_tuple is None: return_tuple = self.connection.return_tuple\<close>, the first
  statement of five methods.
\<close>

definition resolve_return_tuple :: "space \<Rightarrow> pyval \<Rightarrow> store \<Rightarrow> pyval" where
  "resolve_return_tuple self rt \<sigma> =
     (if rt = PNone then PBool (return_tuple (\<sigma> (connection self))) else rt)"

text \<open>
  The bodies of \<^verbatim>\<open>replace\<close>, \<^verbatim>\<open>store\<close> and \<^verbatim>\<open>insert\<close> call
  \<^verbatim>\<open>self.connection._insert\<close> as an expression statement: an exception of the call
  propagates, its value is dropped and the method returns \<^verbatim>\<open>None\<close>.
\<close>

definition replace_body :: "box_const \<Rightarrow> space \<Rightarrow> pyval \<Rightarrow> pyval \<Rightarrow> store \<Rightarrow> outcome" where
  "replace_body K self values rt0 \<sigma> =
     (let rt = resolve_return_tuple self rt0 \<sigma>;
          (res, \<sigma>') = send (connection self)
             (Insert_req (space_no self) values
                ((if truthy rt then BOX_RETURN_TUPLE K else 0) OR BOX_REPLACE K)) \<sigma>
      in case res of
           Inl e \<Rightarrow> (Inl e, self, \<sigma>')
         | Inr r \<Rightarrow> (Inr PNone, self, \<sigma>'))"

definition store_body :: "box_const \<Rightarrow> space \<Rightarrow> pyval \<Rightarrow> pyval \<Rightarrow> store \<Rightarrow> outcome" where
  "store_body K self values rt0 \<sigma> =
     (let rt = resolve_return_tuple self rt0 \<sigma>;
          (res, \<sigma>') = send (connection self)
             (Insert_req (space_no self) values
                (if truthy rt then BOX_RETURN_TUPLE K else 0)) \<sigma>
      in case res of
           Inl e \<Rightarrow> (Inl e, self, \<sigma>')
         | Inr r \<Rightarrow> (Inr PNone, self, \<sigma>'))"

definition insert_body :: "box_const \<Rightarrow> space \<Rightarrow> pyval \<Rightarrow> pyval \<Rightarrow> store \<Rightarrow> outcome" where
  "insert_body K self values rt0 \<sigma> =
     (let rt = resolve_return_tuple self rt0 \<sigma>;
          (res, \<sigma>') = send (connection self)
             (Insert_req (space_no self) values
                ((if truthy rt then BOX_RETURN_TUPLE K else 0) OR BOX_ADD K)) \<sigma>
      in case res of
           Inl e \<Rightarrow> (Inl e, self, \<sigma>')
         | Inr r \<Rightarrow> (Inr PNone, self, \<sigma>'))"

text \<open>\<^verbatim>\<open>delete\<close> and \<^verbatim>\<open>update\<close> return what the connection returns.\<close>

definition delete_body :: "space \<Rightarrow> pyval \<Rightarrow> pyval \<Rightarrow> store \<Rightarrow> outcome" where
  "delete_body self key rt0 \<sigma> =
     (let rt = resolve_return_tuple self rt0 \<sigma>;
          (res, \<sigma>') = send (connection self) (Delete_req (space_no self) key rt) \<sigma>
      in (res, self, \<sigma>'))"

definition update_body :: "space \<Rightarrow> pyval \<Rightarrow> pyval \<Rightarrow> pyval \<Rightarrow> store \<Rightarrow> outcome" where
  "update_body self key op_list rt0 \<sigma> =
     (let rt = resolve_return_tuple self rt0 \<sigma>;
          (res, \<sigma>') = send (connection self) (Update_req (space_no self) key op_list rt) \<sigma>
      in (res, self, \<sigma>'))"

text \<open>\<^verbatim>\<open>select\<close> reads its three options out of \<^verbatim>\<open>**kwargs\<close>.\<close>

definition select_body :: "space \<Rightarrow> pyval \<Rightarrow> (string \<times> pyval) list \<Rightarrow> store \<Rightarrow> outcome" where
  "select_body self values kwa \<sigma> =
     (let index = dict_get kwa ''index'' (PInt 0);
          offset = dict_get kwa ''offset'' (PInt 0);
          limit = dict_get kwa ''limit'' (PInt 0xffffffff);
          (res, \<sigma>') = send (connection self)
             (Select_req (space_no self) values index offset limit) \<sigma>
      in (res, self, \<sigma>'))"

definition call_body ::
  "space \<Rightarrow> pyval \<Rightarrow> pyval list \<Rightarrow> (string \<times> pyval) list \<Rightarrow> store \<Rightarrow> outcome" where
  "call_body self func_name argv kwa \<sigma> =
     (let (res, \<sigma>') = send (connection self) (Call_req func_name argv kwa) \<sigma>
      in (res, self, \<sigma>'))"

text \<open>
  The methods as a caller invokes them, with positional and keyword arguments: the
  signature is bound first, and a call that does not fit raises before the body runs.
\<close>

definition sig_values_rt :: signature where
  "sig_values_rt = \<lparr> params = [''self'', ''values'', ''return_tuple''],
                     defaults = [(''return_tuple'', PNone)],
                     var_args = False, var_kwargs = False \<rparr>"

definition sig_delete :: signature where
  "sig_delete = \<lparr> params = [''self'', ''key'', ''return_tuple''],
                  defaults = [(''return_tuple'', PNone)],
                  var_args = False, var_kwargs = False \<rparr>"

definition sig_update :: signature where
  "sig_update = \<lparr> params = [''self'', ''key'', ''op_list'', ''return_tuple''],
                  defaults = [(''return_tuple'', PNone)],
                  var_args = False, var_kwargs = False \<rparr>"

definition sig_select :: signature where
  "sig_select = \<lparr> params = [''self'', ''values''], defaults = [],
                  var_args = False, var_kwargs = True \<rparr>"

definition sig_call :: signature where
  "sig_call = \<lparr> params = [''self'', ''func_name''], defaults = [],
                var_args = True, var_kwargs = True \<rparr>"

definition replace ::
  "box_const \<Rightarrow> space \<Rightarrow> pyval list \<Rightarrow> (string \<times> pyval) list \<Rightarrow> store \<Rightarrow> outcome" where
  "replace K self pos kw \<sigma> =
     (case bind_method sig_values_rt pos kw of
        Inl e \<Rightarrow> (Inl e, self, \<sigma>)
      | Inr b \<Rightarrow> replace_body K self (param b ''values'') (param b ''return_tuple'') \<sigma>)"

definition store ::
  "box_const \<Rightarrow> space \<Rightarrow> pyval list \<Rightarrow> (string \<times> pyval) list \<Rightarrow> store \<Rightarrow> outcome" where
  "store K self pos kw \<sigma> =
     (case bind_method sig_values_rt pos kw of
        Inl e \<Rightarrow> (Inl e, self, \<sigma>)
      | Inr b \<Rightarrow> store_body K self (param b ''values'') (param b ''return_tuple'') \<sigma>)"

definition insert_op ::
  "box_const \<Rightarrow> space \<Rightarrow> pyval list \<Rightarrow> (string \<times> pyval) list \<Rightarrow> store \<Rightarrow> outcome" where
  "insert_op K self pos kw \<sigma> =
     (case bind_method sig_values_rt pos kw of
        Inl e \<Rightarrow> (Inl e, self, \<sigma>)
      | Inr b \<Rightarrow> insert_body K self (param b ''values'') (param b ''return_tuple'') \<sigma>)"

definition delete ::
  "space \<Rightarrow> pyval list \<Rightarrow> (string \<times> pyval) list \<Rightarrow> store \<Rightarrow> outcome" where
  "delete self pos kw \<sigma> =
     (case bind_method sig_delete pos kw of
        Inl e \<Rightarrow> (Inl e, self, \<sigma>)
      | Inr b \<Rightarrow> delete_body self (param b ''key'') (param b ''return_tuple'') \<sigma>)"

definition update ::
  "space \<Rightarrow> pyval list \<Rightarrow> (string \<times> pyval) list \<Rightarrow> store \<Rightarrow> outcome" where
  "update self pos kw \<sigma> =
     (case bind_method sig_update pos kw of
        Inl e \<Rightarrow> (Inl e, self, \<sigma>)
      | Inr b \<Rightarrow> update_body self (param b ''key'') (param b ''op_list'')
                  (param b ''return_tuple'') \<sigma>)"

definition select ::
  "space \<Rightarrow> pyval list \<Rightarrow> (string \<times> pyval) list \<Rightarrow> store \<Rightarrow> outcome" where
  "select self pos kw \<sigma> =
     (case bind_method sig_select pos kw of
        Inl e \<Rightarrow> (Inl e, self, \<sigma>)
      | Inr b \<Rightarrow> select_body self (param b ''values'') (kwargs b) \<sigma>)"

definition call ::
  "space \<Rightarrow> pyval list \<Rightarrow> (string \<times> pyval) list \<Rightarrow> store \<Rightarrow> outcome" where
  "call self pos kw \<sigma> =
     (case bind_method sig_call pos kw of
        Inl e \<Rightarrow> (Inl e, self, \<sigma>)
      | Inr b \<Rightarrow> call_body self (param b ''func_name'') (args b) (kwargs b) \<sigma>)"

section \<open>Observing a call\<close>

text \<open>
  The requests the connection of \<open>self\<close> received while a call ran: what the call
  forwarded. \<open>\<sigma>\<close> is the store before the call, \<open>out\<close> the outcome of the call.
\<close>

definition forwarded :: "space \<Rightarrow> store \<Rightarrow> outcome \<Rightarrow> request list" where
  "forwarded self \<sigma> out =
     drop (length (received (\<sigma> (connection self))))
       (received ((snd (snd out)) (connection self)))"

text \<open>The space a request addresses, when it addresses one.\<close>

fun request_space :: "request \<Rightarrow> int option" where
  "request_space (Insert_req n values flags) = Some n"
| "request_space (Delete_req n key rt) = Some n"
| "request_space (Update_req n key op_list rt) = Some n"
| "request_space (Select_req n values index offset limit) = Some n"
| "request_space (Call_req func_name argv kwa) = None"

text \<open>\<^verbatim>\<open>connection.return_tuple = d\<close>, executed by some other part of the program.\<close>

definition set_return_tuple :: "addr \<Rightarrow> bool \<Rightarrow> store \<Rightarrow> store" where
  "set_return_tuple a d \<sigma> = \<sigma>(a := (\<sigma> a)\<lparr>return_tuple := d\<rparr>)"

subsection \<open>How a caller gives an argument\<close>

text \<open>
  The parameter called \<open>p\<close>, the \<open>i\<close>-th after the receiver (counting from 0), is
  omitted by a call when it is given neither by position nor by name, and supplied with
  the value \<open>v\<close> when the call gives it by position, or else by name.
\<close>

definition omitted :: "nat \<Rightarrow> string \<Rightarrow> pyval list \<Rightarrow> (string \<times> pyval) list \<Rightarrow> bool" where
  "omitted i p pos kw = (length pos \<le> i \<and> map_of kw p = None)"

definition supplied ::
  "nat \<Rightarrow> string \<Rightarrow> pyval list \<Rightarrow> (string \<times> pyval) list \<Rightarrow> pyval \<Rightarrow> bool" where
  "supplied i p pos kw v = (if i < length pos then pos ! i = v else map_of kw p = Some v)"

subsection \<open>A concrete connection\<close>

text \<open>
  One space, known as \<^verbatim>\<open>users\<close> and as number 7; every request is answered with the
  same one-tuple response; the flag constants are three distinct bits.
\<close>

definition example_const :: box_const where
  "example_const = \<lparr> BOX_RETURN_TUPLE = 1, BOX_ADD = 2, BOX_REPLACE = 4 \<rparr>"

definition example_conn :: connection where
  "example_conn =
     \<lparr> return_tuple = True,
       schema_space_no = (\<lambda>v. if v = PStr ''users'' \<or> v = PInt 7 then Inr 7
                              else Inl (ConnectionRaised ''no such space'')),
       reply = (\<lambda>h r. Inr (PTuple [PTuple [PInt 1, PStr ''ann'']])),
       received = [] \<rparr>"

definition example_store :: store where
  "example_store = (\<lambda>a. example_conn)"

definition example_space :: space where
  "example_space = \<lparr> connection = 0, space_no = 7 \<rparr>"

section \<open>Properties\<close>

lemmas sig_defs = sig_values_rt_def sig_delete_def sig_update_def sig_select_def sig_call_def

lemmas body_defs = replace_body_def store_body_def insert_body_def delete_body_def
  update_body_def select_body_def call_body_def

lemmas method_defs = replace_def store_def insert_op_def delete_def update_def select_def call_def

lemmas example_defs = example_const_def example_conn_def example_store_def example_space_def

lemmas run_defs = method_defs body_defs bind_method_def bind_args_def sig_defs param_def
  dict_get_def resolve_return_tuple_def send_def forwarded_def Let_def

subsection \<open>What a call forwards\<close>

lemma forwarded_send [simp]:
  "forwarded self \<sigma> (res, s', snd (send (connection self) r \<sigma>)) = [r]"
  by (simp add: forwarded_def send_def Let_def)

lemma forwarded_nothing [simp]: "forwarded self \<sigma> (res, s', \<sigma>) = []"
  by (simp add: forwarded_def)

subsection \<open>What binding gives the body\<close>

lemma map_of_filter_fst:
  "map_of (filter (\<lambda>(k, v). P k) xs) k = (if P k then map_of xs k else None)"
  by (induction xs) auto

lemma map_of_graph:
  "map_of (map (\<lambda>p. (p, f p)) ps) p = (if p \<in> set ps then Some (f p) else None)"
  by (induction ps) auto

lemma bind_args_Inr:
  assumes "bind_args sg pos kw = Inr b"
  shows "kwargs b = filter (\<lambda>(k, v). k \<notin> set (params sg)) kw"
    and "args b = drop (length (params sg)) pos"
    and "p \<in> set (params sg) \<Longrightarrow> param b p =
          (case map_of (zip (params sg) pos) p of
             Some v \<Rightarrow> v
           | None \<Rightarrow> (case map_of kw p of
                        Some v \<Rightarrow> v
                      | None \<Rightarrow> (case map_of (defaults sg) p of
                                   Some d \<Rightarrow> d
                                 | None \<Rightarrow> PNone)))"
  using assms
  by (auto simp: bind_args_def Let_def param_def map_of_graph map_of_filter_fst map_add_def
      split: if_splits option.splits)

subsection \<open>The receiver\<close>

text \<open>
  Claim C8. Each of the seven methods hands back the receiver it was called on: no
  method assigns to \<^verbatim>\<open>self.connection\<close> or \<^verbatim>\<open>self.space_no\<close>, so both fields keep
  the values \<^verbatim>\<open>__init__\<close> gave them, whatever the arguments and whether or not the
  call raises.
\<close>

theorem receiver_unchanged:
  "fst (snd (replace K self pos kw \<sigma>)) = self \<and>
   fst (snd (store K self pos kw \<sigma>)) = self \<and>
   fst (snd (insert_op K self pos kw \<sigma>)) = self \<and>
   fst (snd (delete self pos kw \<sigma>)) = self \<and>
   fst (snd (update self pos kw \<sigma>)) = self \<and>
   fst (snd (select self pos kw \<sigma>)) = self \<and>
   fst (snd (call self pos kw \<sigma>)) = self"
  by (simp add: method_defs body_defs Let_def split: sum.splits prod.splits)

theorem receiver_unchanged_example:
  "fst (snd (replace example_const example_space [PTuple [PInt 1, PStr ''ann'']] [] example_store))
     = \<lparr> connection = 0, space_no = 7 \<rparr> \<and>
   fst (snd (call example_space [PStr ''f'', PInt 3] [] example_store))
     = \<lparr> connection = 0, space_no = 7 \<rparr>"
  using receiver_unchanged [of example_const example_space
      "[PTuple [PInt 1, PStr ''ann'']]" "[]" example_store]
    receiver_unchanged [of example_const example_space
      "[PStr ''f'', PInt 3]" "[]" example_store]
  by (simp add: example_space_def)

subsection \<open>The value the insert methods return\<close>

text \<open>
  Claim C1. The docstrings of \<^verbatim>\<open>replace\<close>, \<^verbatim>\<open>store\<close> and \<^verbatim>\<open>insert\<close> announce a
  \<^verbatim>\<open>Response\<close> as the return value, and \<^verbatim>\<open>delete\<close> and \<^verbatim>\<open>update\<close> return what the
  connection returns. The three insert methods have no \<^verbatim>\<open>return\<close>: on the example
  connection, which answers every request with a one-tuple response, \<^verbatim>\<open>delete\<close>
  returns that response and the three return \<^verbatim>\<open>None\<close>.
\<close>

theorem insert_methods_return_None:
  "fst (send 0 (Insert_req 7 (PTuple [PInt 1, PStr ''ann'']) 5) example_store)
     = Inr (PTuple [PTuple [PInt 1, PStr ''ann'']]) \<and>
   forwarded example_space example_store
     (replace example_const example_space [PTuple [PInt 1, PStr ''ann'']] [] example_store)
     = [Insert_req 7 (PTuple [PInt 1, PStr ''ann'']) 5] \<and>
   fst (replace example_const example_space [PTuple [PInt 1, PStr ''ann'']] [] example_store)
     = Inr PNone \<and>
   fst (store example_const example_space [PTuple [PInt 1, PStr ''ann'']] [] example_store)
     = Inr PNone \<and>
   fst (insert_op example_const example_space [PTuple [PInt 1, PStr ''ann'']] [] example_store)
     = Inr PNone \<and>
   fst (delete example_space [PInt 1] [] example_store)
     = Inr (PTuple [PTuple [PInt 1, PStr ''ann'']])"
  by (simp add: run_defs example_defs)

lemma values_rt_params:
  assumes "bind_method sig_values_rt pos kw = Inr b"
  shows "param b ''values'' = (case pos of v # r \<Rightarrow> v | [] \<Rightarrow> dict_get kw ''values'' PNone)"
    and "param b ''return_tuple'' =
           (case pos of v # f # r \<Rightarrow> f | _ \<Rightarrow> dict_get kw ''return_tuple'' PNone)"
  using bind_args_Inr(3) [OF assms [unfolded bind_method_def], of "''values''"]
    bind_args_Inr(3) [OF assms [unfolded bind_method_def], of "''return_tuple''"]
  by (auto simp: sig_defs dict_get_def split: list.splits option.splits)

lemma delete_params:
  assumes "bind_method sig_delete pos kw = Inr b"
  shows "param b ''key'' = (case pos of k # r \<Rightarrow> k | [] \<Rightarrow> dict_get kw ''key'' PNone)"
    and "param b ''return_tuple'' =
           (case pos of k # f # r \<Rightarrow> f | _ \<Rightarrow> dict_get kw ''return_tuple'' PNone)"
  using bind_args_Inr(3) [OF assms [unfolded bind_method_def], of "''key''"]
    bind_args_Inr(3) [OF assms [unfolded bind_method_def], of "''return_tuple''"]
  by (auto simp: sig_defs dict_get_def split: list.splits option.splits)

lemma update_params:
  assumes "bind_method sig_update pos kw = Inr b"
  shows "param b ''key'' = (case pos of k # r \<Rightarrow> k | [] \<Rightarrow> dict_get kw ''key'' PNone)"
    and "param b ''op_list'' =
           (case pos of k # l # r \<Rightarrow> l | _ \<Rightarrow> dict_get kw ''op_list'' PNone)"
    and "param b ''return_tuple'' =
           (case pos of k # l # f # r \<Rightarrow> f | _ \<Rightarrow> dict_get kw ''return_tuple'' PNone)"
  using bind_args_Inr(3) [OF assms [unfolded bind_method_def], of "''key''"]
    bind_args_Inr(3) [OF assms [unfolded bind_method_def], of "''op_list''"]
    bind_args_Inr(3) [OF assms [unfolded bind_method_def], of "''return_tuple''"]
  by (auto simp: sig_defs dict_get_def split: list.splits option.splits)

lemma omitted_1:
  "omitted 1 p pos kw \<Longrightarrow> (case pos of k # f # r \<Rightarrow> f | _ \<Rightarrow> dict_get kw p PNone) = PNone"
  by (auto simp: omitted_def dict_get_def split: list.splits)

lemma omitted_2:
  "omitted 2 p pos kw \<Longrightarrow>
   (case pos of k # l # f # r \<Rightarrow> f | _ \<Rightarrow> dict_get kw p PNone) = PNone"
  by (auto simp: omitted_def dict_get_def split: list.splits)

lemma supplied_1:
  "supplied 1 p pos kw v \<Longrightarrow> (case pos of k # f # r \<Rightarrow> f | _ \<Rightarrow> dict_get kw p PNone) = v"
  by (auto simp: supplied_def dict_get_def split: list.splits if_splits)

lemma supplied_2:
  "supplied 2 p pos kw v \<Longrightarrow>
   (case pos of k # l # f # r \<Rightarrow> f | _ \<Rightarrow> dict_get kw p PNone) = v"
  by (auto simp: supplied_def dict_get_def split: list.splits if_splits)

lemma replace_forwards:
  assumes "bind_method sig_values_rt pos kw = Inr b"
  shows "forwarded self \<sigma> (replace K self pos kw \<sigma>) =
     [Insert_req (space_no self) (param b ''values'')
        ((if truthy (resolve_return_tuple self (param b ''return_tuple'') \<sigma>)
          then BOX_RETURN_TUPLE K else 0) OR BOX_REPLACE K)]"
  using assms
  by (simp add: replace_def replace_body_def Let_def forwarded_def send_def split: sum.splits)

lemma store_forwards:
  assumes "bind_method sig_values_rt pos kw = Inr b"
  shows "forwarded self \<sigma> (store K self pos kw \<sigma>) =
     [Insert_req (space_no self) (param b ''values'')
        (if truthy (resolve_return_tuple self (param b ''return_tuple'') \<sigma>)
         then BOX_RETURN_TUPLE K else 0)]"
  using assms
  by (simp add: store_def store_body_def Let_def forwarded_def send_def split: sum.splits)

lemma insert_forwards:
  assumes "bind_method sig_values_rt pos kw = Inr b"
  shows "forwarded self \<sigma> (insert_op K self pos kw \<sigma>) =
     [Insert_req (space_no self) (param b ''values'')
        ((if truthy (resolve_return_tuple self (param b ''return_tuple'') \<sigma>)
          then BOX_RETURN_TUPLE K else 0) OR BOX_ADD K)]"
  using assms
  by (simp add: insert_op_def insert_body_def Let_def forwarded_def send_def split: sum.splits)

lemma delete_forwards:
  assumes "bind_method sig_delete pos kw = Inr b"
  shows "forwarded self \<sigma> (delete self pos kw \<sigma>) =
     [Delete_req (space_no self) (param b ''key'')
        (resolve_return_tuple self (param b ''return_tuple'') \<sigma>)]"
  using assms
  by (simp add: delete_def delete_body_def Let_def forwarded_def send_def split: sum.splits)

lemma update_forwards:
  assumes "bind_method sig_update pos kw = Inr b"
  shows "forwarded self \<sigma> (update self pos kw \<sigma>) =
     [Update_req (space_no self) (param b ''key'') (param b ''op_list'')
        (resolve_return_tuple self (param b ''return_tuple'') \<sigma>)]"
  using assms
  by (simp add: update_def update_body_def Let_def forwarded_def send_def split: sum.splits)

lemma omitted_values_rt:
  "bind_method sig_values_rt pos kw = Inr b \<Longrightarrow> omitted 1 ''return_tuple'' pos kw \<Longrightarrow>
   param b ''return_tuple'' = PNone"
  by (simp add: values_rt_params(2) omitted_1)

lemma omitted_delete:
  "bind_method sig_delete pos kw = Inr b \<Longrightarrow> omitted 1 ''return_tuple'' pos kw \<Longrightarrow>
   param b ''return_tuple'' = PNone"
  by (simp add: delete_params(2) omitted_1)

lemma omitted_update:
  "bind_method sig_update pos kw = Inr b \<Longrightarrow> omitted 2 ''return_tuple'' pos kw \<Longrightarrow>
   param b ''return_tuple'' = PNone"
  by (simp add: update_params(3) omitted_2)

lemma resolve_None [simp]:
  "resolve_return_tuple self PNone \<sigma> = PBool (return_tuple (\<sigma> (connection self)))"
  by (simp add: resolve_return_tuple_def)

lemma resolve_Bool [simp]: "resolve_return_tuple self (PBool f) \<sigma> = PBool f"
  by (simp add: resolve_return_tuple_def)

lemma supplied_values_rt:
  "bind_method sig_values_rt pos kw = Inr b \<Longrightarrow> supplied 1 ''return_tuple'' pos kw v \<Longrightarrow>
   param b ''return_tuple'' = v"
  by (simp add: values_rt_params(2) supplied_1)

lemma supplied_delete:
  "bind_method sig_delete pos kw = Inr b \<Longrightarrow> supplied 1 ''return_tuple'' pos kw v \<Longrightarrow>
   param b ''return_tuple'' = v"
  by (simp add: delete_params(2) supplied_1)

lemma supplied_update:
  "bind_method sig_update pos kw = Inr b \<Longrightarrow> supplied 2 ''return_tuple'' pos kw v \<Longrightarrow>
   param b ''return_tuple'' = v"
  by (simp add: update_params(3) supplied_2)

lemma send_set_return_tuple:
  "send c r (set_return_tuple a d \<sigma>) =
     (case send c r \<sigma> of (res, \<sigma>') \<Rightarrow> (res, set_return_tuple a d \<sigma>'))"
  by (cases "a = c") (auto simp: send_def set_return_tuple_def Let_def fun_eq_iff)

lemma resolve_set_return_tuple:
  "rt \<noteq> PNone \<Longrightarrow>
   resolve_return_tuple self rt (set_return_tuple a d \<sigma>) = resolve_return_tuple self rt \<sigma>"
  by (simp add: resolve_return_tuple_def)

lemma default_not_read:
  assumes "rt \<noteq> PNone"
  shows "replace_body K self v rt (set_return_tuple a d \<sigma>) =
           (case replace_body K self v rt \<sigma> of
              (res, s, \<sigma>') \<Rightarrow> (res, s, set_return_tuple a d \<sigma>'))"
    and "store_body K self v rt (set_return_tuple a d \<sigma>) =
           (case store_body K self v rt \<sigma> of
              (res, s, \<sigma>') \<Rightarrow> (res, s, set_return_tuple a d \<sigma>'))"
    and "insert_body K self v rt (set_return_tuple a d \<sigma>) =
           (case insert_body K self v rt \<sigma> of
              (res, s, \<sigma>') \<Rightarrow> (res, s, set_return_tuple a d \<sigma>'))"
    and "delete_body self v rt (set_return_tuple a d \<sigma>) =
           (case delete_body self v rt \<sigma> of
              (res, s, \<sigma>') \<Rightarrow> (res, s, set_return_tuple a d \<sigma>'))"
    and "update_body self v l rt (set_return_tuple a d \<sigma>) =
           (case update_body self v l rt \<sigma> of
              (res, s, \<sigma>') \<Rightarrow> (res, s, set_return_tuple a d \<sigma>'))"
  using assms
  by (simp_all add: body_defs Let_def send_set_return_tuple resolve_set_return_tuple
      split: prod.splits sum.splits)

lemmas bind_eval = bind_method_def bind_args_def sig_defs param_def omitted_def supplied_def
  Let_def

subsection \<open>The return-tuple flag\<close>

text \<open>
  Claim C2. When a call to \<^verbatim>\<open>replace\<close>, \<^verbatim>\<open>store\<close>, \<^verbatim>\<open>insert\<close>, \<^verbatim>\<open>delete\<close> or
  \<^verbatim>\<open>update\<close> omits \<^verbatim>\<open>return_tuple\<close>, the connection receives one request, and the
  flag in it is the \<^verbatim>\<open>return_tuple\<close> attribute the connection has in the store the call
  runs in: as the value itself for \<^verbatim>\<open>delete\<close> and \<^verbatim>\<open>update\<close>, as the presence of
  \<^verbatim>\<open>BOX_RETURN_TUPLE\<close> in the flags word for the three insert methods. The store is any
  store, not the one the \<^verbatim>\<open>Space\<close> was constructed in.
\<close>

theorem omitted_flag_forwards_current_default:
  "(bind_method sig_values_rt pos kw = Inr b \<and> omitted 1 ''return_tuple'' pos kw \<longrightarrow>
      forwarded self \<sigma> (replace K self pos kw \<sigma>) =
        [Insert_req (space_no self) (param b ''values'')
           ((if return_tuple (\<sigma> (connection self)) then BOX_RETURN_TUPLE K else 0)
              OR BOX_REPLACE K)] \<and>
      forwarded self \<sigma> (store K self pos kw \<sigma>) =
        [Insert_req (space_no self) (param b ''values'')
           (if return_tuple (\<sigma> (connection self)) then BOX_RETURN_TUPLE K else 0)] \<and>
      forwarded self \<sigma> (insert_op K self pos kw \<sigma>) =
        [Insert_req (space_no self) (param b ''values'')
           ((if return_tuple (\<sigma> (connection self)) then BOX_RETURN_TUPLE K else 0)
              OR BOX_ADD K)]) \<and>
   (bind_method sig_delete pos kw = Inr b \<and> omitted 1 ''return_tuple'' pos kw \<longrightarrow>
      forwarded self \<sigma> (delete self pos kw \<sigma>) =
        [Delete_req (space_no self) (param b ''key'')
           (PBool (return_tuple (\<sigma> (connection self))))]) \<and>
   (bind_method sig_update pos kw = Inr b \<and> omitted 2 ''return_tuple'' pos kw \<longrightarrow>
      forwarded self \<sigma> (update self pos kw \<sigma>) =
        [Update_req (space_no self) (param b ''key'') (param b ''op_list'')
           (PBool (return_tuple (\<sigma> (connection self))))])"
proof (intro conjI impI; elim conjE)
  assume "bind_method sig_values_rt pos kw = Inr b" "omitted 1 ''return_tuple'' pos kw"
  then show "forwarded self \<sigma> (replace K self pos kw \<sigma>) =
        [Insert_req (space_no self) (param b ''values'')
           ((if return_tuple (\<sigma> (connection self)) then BOX_RETURN_TUPLE K else 0)
              OR BOX_REPLACE K)]"
    and "forwarded self \<sigma> (store K self pos kw \<sigma>) =
        [Insert_req (space_no self) (param b ''values'')
           (if return_tuple (\<sigma> (connection self)) then BOX_RETURN_TUPLE K else 0)]"
    and "forwarded self \<sigma> (insert_op K self pos kw \<sigma>) =
        [Insert_req (space_no self) (param b ''values'')
           ((if return_tuple (\<sigma> (connection self)) then BOX_RETURN_TUPLE K else 0)
              OR BOX_ADD K)]"
    by (simp_all add: replace_forwards store_forwards insert_forwards omitted_values_rt)
next
  assume "bind_method sig_delete pos kw = Inr b" "omitted 1 ''return_tuple'' pos kw"
  then show "forwarded self \<sigma> (delete self pos kw \<sigma>) =
        [Delete_req (space_no self) (param b ''key'')
           (PBool (return_tuple (\<sigma> (connection self))))]"
    by (simp add: delete_forwards omitted_delete)
next
  assume "bind_method sig_update pos kw = Inr b" "omitted 2 ''return_tuple'' pos kw"
  then show "forwarded self \<sigma> (update self pos kw \<sigma>) =
        [Update_req (space_no self) (param b ''key'') (param b ''op_list'')
           (PBool (return_tuple (\<sigma> (connection self))))]"
    by (simp add: update_forwards omitted_update)
qed

text \<open>
  A \<^verbatim>\<open>Space\<close> constructed while the default is \<^verbatim>\<open>True\<close> forwards \<^verbatim>\<open>False\<close> once the
  default has been set to \<^verbatim>\<open>False\<close>.
\<close>

theorem omitted_flag_example:
  "space_init 0 (PStr ''users'') example_store = Inr example_space \<and>
   return_tuple (example_store 0) \<and>
   forwarded example_space example_store
     (replace example_const example_space [PTuple [PInt 1, PStr ''ann'']] [] example_store)
     = [Insert_req 7 (PTuple [PInt 1, PStr ''ann'']) 5] \<and>
   forwarded example_space (set_return_tuple 0 False example_store)
     (replace example_const example_space [PTuple [PInt 1, PStr ''ann'']] []
        (set_return_tuple 0 False example_store))
     = [Insert_req 7 (PTuple [PInt 1, PStr ''ann'']) 4] \<and>
   forwarded example_space (set_return_tuple 0 False example_store)
     (delete example_space [] [(''key'', PInt 1)] (set_return_tuple 0 False example_store))
     = [Delete_req 7 (PInt 1) (PBool False)] \<and>
   forwarded example_space (set_return_tuple 0 False example_store)
     (update example_space [PInt 1, PTuple []] [] (set_return_tuple 0 False example_store))
     = [Update_req 7 (PInt 1) (PTuple []) (PBool False)]"
  using
    omitted_flag_forwards_current_default [of "[PTuple [PInt 1, PStr ''ann'']]" "[]"
      "\<lparr> named = [(''self'', PNone), (''values'', PTuple [PInt 1, PStr ''ann'']),
                  (''return_tuple'', PNone)], args = [], kwargs = [] \<rparr>"
      example_space example_store example_const]
    omitted_flag_forwards_current_default [of "[PTuple [PInt 1, PStr ''ann'']]" "[]"
      "\<lparr> named = [(''self'', PNone), (''values'', PTuple [PInt 1, PStr ''ann'']),
                  (''return_tuple'', PNone)], args = [], kwargs = [] \<rparr>"
      example_space "set_return_tuple 0 False example_store" example_const]
    omitted_flag_forwards_current_default [of "[]" "[(''key'', PInt 1)]"
      "\<lparr> named = [(''self'', PNone), (''key'', PInt 1), (''return_tuple'', PNone)],
         args = [], kwargs = [] \<rparr>"
      example_space "set_return_tuple 0 False example_store" example_const]
    omitted_flag_forwards_current_default [of "[PInt 1, PTuple []]" "[]"
      "\<lparr> named = [(''self'', PNone), (''key'', PInt 1), (''op_list'', PTuple []),
                  (''return_tuple'', PNone)], args = [], kwargs = [] \<rparr>"
      example_space "set_return_tuple 0 False example_store" example_const]
  by (simp add: bind_eval example_defs set_return_tuple_def space_init_def)

text \<open>
  Claim C3. When a call to one of the five methods supplies a boolean \<^verbatim>\<open>return_tuple\<close>,
  by position or by name, the connection receives one request carrying that boolean
  (\<^verbatim>\<open>False\<close> included), and the connection's default is not read: assigning any other
  default before the call changes neither what the call returns nor what it forwards.
\<close>

theorem explicit_flag_forwarded_as_given:
  "(bind_method sig_values_rt pos kw = Inr b \<and> supplied 1 ''return_tuple'' pos kw (PBool f) \<longrightarrow>
      forwarded self \<sigma> (replace K self pos kw \<sigma>) =
        [Insert_req (space_no self) (param b ''values'')
           ((if f then BOX_RETURN_TUPLE K else 0) OR BOX_REPLACE K)] \<and>
      forwarded self \<sigma> (store K self pos kw \<sigma>) =
        [Insert_req (space_no self) (param b ''values'')
           (if f then BOX_RETURN_TUPLE K else 0)] \<and>
      forwarded self \<sigma> (insert_op K self pos kw \<sigma>) =
        [Insert_req (space_no self) (param b ''values'')
           ((if f then BOX_RETURN_TUPLE K else 0) OR BOX_ADD K)] \<and>
      replace K self pos kw (set_return_tuple a d \<sigma>) =
        (case replace K self pos kw \<sigma> of (res, s, \<sigma>') \<Rightarrow> (res, s, set_return_tuple a d \<sigma>')) \<and>
      store K self pos kw (set_return_tuple a d \<sigma>) =
        (case store K self pos kw \<sigma> of (res, s, \<sigma>') \<Rightarrow> (res, s, set_return_tuple a d \<sigma>')) \<and>
      insert_op K self pos kw (set_return_tuple a d \<sigma>) =
        (case insert_op K self pos kw \<sigma> of
           (res, s, \<sigma>') \<Rightarrow> (res, s, set_return_tuple a d \<sigma>'))) \<and>
   (bind_method sig_delete pos kw = Inr b \<and> supplied 1 ''return_tuple'' pos kw (PBool f) \<longrightarrow>
      forwarded self \<sigma> (delete self pos kw \<sigma>) =
        [Delete_req (space_no self) (param b ''key'') (PBool f)] \<and>
      delete self pos kw (set_return_tuple a d \<sigma>) =
        (case delete self pos kw \<sigma> of (res, s, \<sigma>') \<Rightarrow> (res, s, set_return_tuple a d \<sigma>'))) \<and>
   (bind_method sig_update pos kw = Inr b \<and> supplied 2 ''return_tuple'' pos kw (PBool f) \<longrightarrow>
      forwarded self \<sigma> (update self pos kw \<sigma>) =
        [Update_req (space_no self) (param b ''key'') (param b ''op_list'') (PBool f)] \<and>
      update self pos kw (set_return_tuple a d \<sigma>) =
        (case update self pos kw \<sigma> of (res, s, \<sigma>') \<Rightarrow> (res, s, set_return_tuple a d \<sigma>')))"
proof (intro conjI impI; elim conjE)
  assume ok: "bind_method sig_values_rt pos kw = Inr b"
    and "supplied 1 ''return_tuple'' pos kw (PBool f)"
  then have rt: "param b ''return_tuple'' = PBool f"
    by (rule supplied_values_rt)
  show "forwarded self \<sigma> (replace K self pos kw \<sigma>) =
        [Insert_req (space_no self) (param b ''values'')
           ((if f then BOX_RETURN_TUPLE K else 0) OR BOX_REPLACE K)]"
    by (simp add: replace_forwards [OF ok] rt)
  show "forwarded self \<sigma> (store K self pos kw \<sigma>) =
        [Insert_req (space_no self) (param b ''values'')
           (if f then BOX_RETURN_TUPLE K else 0)]"
    by (simp add: store_forwards [OF ok] rt)
  show "forwarded self \<sigma> (insert_op K self pos kw \<sigma>) =
        [Insert_req (space_no self) (param b ''values'')
           ((if f then BOX_RETURN_TUPLE K else 0) OR BOX_ADD K)]"
    by (simp add: insert_forwards [OF ok] rt)
  show "replace K self pos kw (set_return_tuple a d \<sigma>) =
        (case replace K self pos kw \<sigma> of (res, s, \<sigma>') \<Rightarrow> (res, s, set_return_tuple a d \<sigma>'))"
    by (simp add: replace_def ok rt default_not_read(1))
  show "store K self pos kw (set_return_tuple a d \<sigma>) =
        (case store K self pos kw \<sigma> of (res, s, \<sigma>') \<Rightarrow> (res, s, set_return_tuple a d \<sigma>'))"
    by (simp add: store_def ok rt default_not_read(2))
  show "insert_op K self pos kw (set_return_tuple a d \<sigma>) =
        (case insert_op K self pos kw \<sigma> of
           (res, s, \<sigma>') \<Rightarrow> (res, s, set_return_tuple a d \<sigma>'))"
    by (simp add: insert_op_def ok rt default_not_read(3))
next
  assume ok: "bind_method sig_delete pos kw = Inr b"
    and "supplied 1 ''return_tuple'' pos kw (PBool f)"
  then have rt: "param b ''return_tuple'' = PBool f"
    by (rule supplied_delete)
  show "forwarded self \<sigma> (delete self pos kw \<sigma>) =
        [Delete_req (space_no self) (param b ''key'') (PBool f)]"
    by (simp add: delete_forwards [OF ok] rt)
  show "delete self pos kw (set_return_tuple a d \<sigma>) =
        (case delete self pos kw \<sigma> of (res, s, \<sigma>') \<Rightarrow> (res, s, set_return_tuple a d \<sigma>'))"
    by (simp add: delete_def ok rt default_not_read(4))
next
  assume ok: "bind_method sig_update pos kw = Inr b"
    and "supplied 2 ''return_tuple'' pos kw (PBool f)"
  then have rt: "param b ''return_tuple'' = PBool f"
    by (rule supplied_update)
  show "forwarded self \<sigma> (update self pos kw \<sigma>) =
        [Update_req (space_no self) (param b ''key'') (param b ''op_list'') (PBool f)]"
    by (simp add: update_forwards [OF ok] rt)
  show "update self pos kw (set_return_tuple a d \<sigma>) =
        (case update self pos kw \<sigma> of (res, s, \<sigma>') \<Rightarrow> (res, s, set_return_tuple a d \<sigma>'))"
    by (simp add: update_def ok rt default_not_read(5))
qed

theorem explicit_flag_example:
  "return_tuple (example_store 0) \<and>
   forwarded example_space example_store
     (insert_op example_const example_space [PTuple [PInt 1, PStr ''ann''], PBool False] []
        example_store)
     = [Insert_req 7 (PTuple [PInt 1, PStr ''ann'']) 2] \<and>
   forwarded example_space example_store
     (delete example_space [PInt 1] [(''return_tuple'', PBool False)] example_store)
     = [Delete_req 7 (PInt 1) (PBool False)] \<and>
   forwarded example_space example_store
     (update example_space [PInt 1, PTuple [], PBool False] [] example_store)
     = [Update_req 7 (PInt 1) (PTuple []) (PBool False)]"
  using
    explicit_flag_forwarded_as_given [of "[PTuple [PInt 1, PStr ''ann''], PBool False]" "[]"
      "\<lparr> named = [(''self'', PNone), (''values'', PTuple [PInt 1, PStr ''ann'']),
                  (''return_tuple'', PBool False)], args = [], kwargs = [] \<rparr>"
      False example_space example_store example_const]
    explicit_flag_forwarded_as_given [of "[PInt 1]" "[(''return_tuple'', PBool False)]"
      "\<lparr> named = [(''self'', PNone), (''key'', PInt 1), (''return_tuple'', PBool False)],
         args = [], kwargs = [] \<rparr>"
      False example_space example_store example_const]
    explicit_flag_forwarded_as_given [of "[PInt 1, PTuple [], PBool False]" "[]"
      "\<lparr> named = [(''self'', PNone), (''key'', PInt 1), (''op_list'', PTuple []),
                  (''return_tuple'', PBool False)], args = [], kwargs = [] \<rparr>"
      False example_space example_store example_const]
  by (simp add: bind_eval example_defs)

text \<open>
  Claim C4. \<^verbatim>\<open>insert\<close>, \<^verbatim>\<open>replace\<close> and \<^verbatim>\<open>store\<close> make the same call,
  \<^verbatim>\<open>self.connection._insert\<close>, with the same space number and the same record. The
  flags word is \<^verbatim>\<open>BOX_RETURN_TUPLE\<close> when the resolved return-tuple value is true and
  0 otherwise, with \<^verbatim>\<open>BOX_ADD\<close> ORed in by \<^verbatim>\<open>insert\<close>, \<^verbatim>\<open>BOX_REPLACE\<close> by
  \<^verbatim>\<open>replace\<close> and nothing by \<^verbatim>\<open>store\<close>.
\<close>

theorem insert_methods_differ_in_flags:
  "bind_method sig_values_rt pos kw = Inr b \<longrightarrow>
     forwarded self \<sigma> (insert_op K self pos kw \<sigma>) =
       [Insert_req (space_no self) (param b ''values'')
          ((if truthy (resolve_return_tuple self (param b ''return_tuple'') \<sigma>)
            then BOX_RETURN_TUPLE K else 0) OR BOX_ADD K)] \<and>
     forwarded self \<sigma> (replace K self pos kw \<sigma>) =
       [Insert_req (space_no self) (param b ''values'')
          ((if truthy (resolve_return_tuple self (param b ''return_tuple'') \<sigma>)
            then BOX_RETURN_TUPLE K else 0) OR BOX_REPLACE K)] \<and>
     forwarded self \<sigma> (store K self pos kw \<sigma>) =
       [Insert_req (space_no self) (param b ''values'')
          (if truthy (resolve_return_tuple self (param b ''return_tuple'') \<sigma>)
           then BOX_RETURN_TUPLE K else 0)]"
  by (simp add: replace_forwards store_forwards insert_forwards)

theorem insert_methods_flags_example:
  "forwarded example_space example_store
     (insert_op example_const example_space [PTuple [PInt 1, PStr ''ann'']] [] example_store)
     = [Insert_req 7 (PTuple [PInt 1, PStr ''ann'']) 3] \<and>
   forwarded example_space example_store
     (replace example_const example_space [PTuple [PInt 1, PStr ''ann'']] [] example_store)
     = [Insert_req 7 (PTuple [PInt 1, PStr ''ann'']) 5] \<and>
   forwarded example_space example_store
     (store example_const example_space [PTuple [PInt 1, PStr ''ann'']] [] example_store)
     = [Insert_req 7 (PTuple [PInt 1, PStr ''ann'']) 1] \<and>
   forwarded example_space example_store
     (store example_const example_space [PTuple [PInt 1, PStr ''ann''], PBool False] []
        example_store)
     = [Insert_req 7 (PTuple [PInt 1, PStr ''ann'']) 0]"
  using
    insert_methods_differ_in_flags [of "[PTuple [PInt 1, PStr ''ann'']]" "[]"
      "\<lparr> named = [(''self'', PNone), (''values'', PTuple [PInt 1, PStr ''ann'']),
                  (''return_tuple'', PNone)], args = [], kwargs = [] \<rparr>"
      example_space example_store example_const]
    insert_methods_differ_in_flags [of "[PTuple [PInt 1, PStr ''ann''], PBool False]" "[]"
      "\<lparr> named = [(''self'', PNone), (''values'', PTuple [PInt 1, PStr ''ann'']),
                  (''return_tuple'', PBool False)], args = [], kwargs = [] \<rparr>"
      example_space example_store example_const]
  by (simp add: bind_eval example_defs)

lemma resolve_not_None:
  "resolve_return_tuple self rt \<sigma> \<noteq> PNone"
  "PNone \<noteq> resolve_return_tuple self rt \<sigma>"
  by (simp_all add: resolve_return_tuple_def)

text \<open>
  Claim C10. For each of the five methods, a call that passes \<^verbatim>\<open>None\<close> as
  \<^verbatim>\<open>return_tuple\<close>, by position or by name, has the outcome of the call that omits it
  with the same other arguments, and the request it forwards carries the connection's
  default: as the flag itself for \<^verbatim>\<open>delete\<close> and \<^verbatim>\<open>update\<close>, as the presence of
  \<^verbatim>\<open>BOX_RETURN_TUPLE\<close> in the flags word for the three insert methods. No call
  to \<^verbatim>\<open>delete\<close> or \<^verbatim>\<open>update\<close>, whatever its arguments, forwards \<^verbatim>\<open>None\<close> as the
  flag.
\<close>

theorem explicit_None_is_omission:
  "(bind_method sig_values_rt pos kw = Inr b \<and> omitted 1 ''return_tuple'' pos kw \<and>
    bind_method sig_values_rt pos' kw' = Inr b' \<and> supplied 1 ''return_tuple'' pos' kw' PNone \<and>
    param b' ''values'' = param b ''values'' \<longrightarrow>
      replace K self pos' kw' \<sigma> = replace K self pos kw \<sigma> \<and>
      store K self pos' kw' \<sigma> = store K self pos kw \<sigma> \<and>
      insert_op K self pos' kw' \<sigma> = insert_op K self pos kw \<sigma> \<and>
      forwarded self \<sigma> (replace K self pos' kw' \<sigma>) =
        [Insert_req (space_no self) (param b ''values'')
           ((if return_tuple (\<sigma> (connection self)) then BOX_RETURN_TUPLE K else 0)
              OR BOX_REPLACE K)] \<and>
      forwarded self \<sigma> (store K self pos' kw' \<sigma>) =
        [Insert_req (space_no self) (param b ''values'')
           (if return_tuple (\<sigma> (connection self)) then BOX_RETURN_TUPLE K else 0)] \<and>
      forwarded self \<sigma> (insert_op K self pos' kw' \<sigma>) =
        [Insert_req (space_no self) (param b ''values'')
           ((if return_tuple (\<sigma> (connection self)) then BOX_RETURN_TUPLE K else 0)
              OR BOX_ADD K)]) \<and>
   (bind_method sig_delete pos kw = Inr b \<and> omitted 1 ''return_tuple'' pos kw \<and>
    bind_method sig_delete pos' kw' = Inr b' \<and> supplied 1 ''return_tuple'' pos' kw' PNone \<and>
    param b' ''key'' = param b ''key'' \<longrightarrow>
      delete self pos' kw' \<sigma> = delete self pos kw \<sigma> \<and>
      forwarded self \<sigma> (delete self pos' kw' \<sigma>) =
        [Delete_req (space_no self) (param b ''key'')
           (PBool (return_tuple (\<sigma> (connection self))))]) \<and>
   (bind_method sig_update pos kw = Inr b \<and> omitted 2 ''return_tuple'' pos kw \<and>
    bind_method sig_update pos' kw' = Inr b' \<and> supplied 2 ''return_tuple'' pos' kw' PNone \<and>
    param b' ''key'' = param b ''key'' \<and> param b' ''op_list'' = param b ''op_list'' \<longrightarrow>
      update self pos' kw' \<sigma> = update self pos kw \<sigma> \<and>
      forwarded self \<sigma> (update self pos' kw' \<sigma>) =
        [Update_req (space_no self) (param b ''key'') (param b ''op_list'')
           (PBool (return_tuple (\<sigma> (connection self))))]) \<and>
   (\<forall>n k. Delete_req n k PNone \<notin> set (forwarded self \<sigma> (delete self pos kw \<sigma>))) \<and>
   (\<forall>n k l. Update_req n k l PNone \<notin> set (forwarded self \<sigma> (update self pos kw \<sigma>)))"
proof (intro conjI impI allI; (elim conjE)?)
  assume *: "bind_method sig_values_rt pos kw = Inr b" "omitted 1 ''return_tuple'' pos kw"
    "bind_method sig_values_rt pos' kw' = Inr b'" "supplied 1 ''return_tuple'' pos' kw' PNone"
    "param b' ''values'' = param b ''values''"
  then show "replace K self pos' kw' \<sigma> = replace K self pos kw \<sigma>"
    and "store K self pos' kw' \<sigma> = store K self pos kw \<sigma>"
    and "insert_op K self pos' kw' \<sigma> = insert_op K self pos kw \<sigma>"
    by (simp_all add: replace_def store_def insert_op_def omitted_values_rt supplied_values_rt)
  from * show "forwarded self \<sigma> (replace K self pos' kw' \<sigma>) =
        [Insert_req (space_no self) (param b ''values'')
           ((if return_tuple (\<sigma> (connection self)) then BOX_RETURN_TUPLE K else 0)
              OR BOX_REPLACE K)]"
    by (simp add: replace_forwards supplied_values_rt)
  from * show "forwarded self \<sigma> (store K self pos' kw' \<sigma>) =
        [Insert_req (space_no self) (param b ''values'')
           (if return_tuple (\<sigma> (connection self)) then BOX_RETURN_TUPLE K else 0)]"
    by (simp add: store_forwards supplied_values_rt)
  from * show "forwarded self \<sigma> (insert_op K self pos' kw' \<sigma>) =
        [Insert_req (space_no self) (param b ''values'')
           ((if return_tuple (\<sigma> (connection self)) then BOX_RETURN_TUPLE K else 0)
              OR BOX_ADD K)]"
    by (simp add: insert_forwards supplied_values_rt)
next
  assume *: "bind_method sig_delete pos kw = Inr b" "omitted 1 ''return_tuple'' pos kw"
    "bind_method sig_delete pos' kw' = Inr b'" "supplied 1 ''return_tuple'' pos' kw' PNone"
    "param b' ''key'' = param b ''key''"
  then show "delete self pos' kw' \<sigma> = delete self pos kw \<sigma>"
    by (simp add: delete_def omitted_delete supplied_delete)
  from * show "forwarded self \<sigma> (delete self pos' kw' \<sigma>) =
        [Delete_req (space_no self) (param b ''key'')
           (PBool (return_tuple (\<sigma> (connection self))))]"
    by (simp add: delete_forwards supplied_delete)
next
  assume *: "bind_method sig_update pos kw = Inr b" "omitted 2 ''return_tuple'' pos kw"
    "bind_method sig_update pos' kw' = Inr b'" "supplied 2 ''return_tuple'' pos' kw' PNone"
    "param b' ''key'' = param b ''key''" "param b' ''op_list'' = param b ''op_list''"
  then show "update self pos' kw' \<sigma> = update self pos kw \<sigma>"
    by (simp add: update_def omitted_update supplied_update)
  from * show "forwarded self \<sigma> (update self pos' kw' \<sigma>) =
        [Update_req (space_no self) (param b ''key'') (param b ''op_list'')
           (PBool (return_tuple (\<sigma> (connection self))))]"
    by (simp add: update_forwards supplied_update)
next
  fix n k
  show "Delete_req n k PNone \<notin> set (forwarded self \<sigma> (delete self pos kw \<sigma>))"
  proof (cases "bind_method sig_delete pos kw")
    case (Inl e)
    then show ?thesis by (simp add: delete_def)
  next
    case (Inr b0)
    then show ?thesis by (simp add: delete_forwards resolve_not_None)
  qed
next
  fix n k l
  show "Update_req n k l PNone \<notin> set (forwarded self \<sigma> (update self pos kw \<sigma>))"
  proof (cases "bind_method sig_update pos kw")
    case (Inl e)
    then show ?thesis by (simp add: update_def)
  next
    case (Inr b0)
    then show ?thesis by (simp add: update_forwards resolve_not_None)
  qed
qed

theorem explicit_None_example:
  "replace example_const example_space [PTuple [PInt 1, PStr ''ann'']]
       [(''return_tuple'', PNone)] example_store
     = replace example_const example_space [PTuple [PInt 1, PStr ''ann'']] [] example_store \<and>
   forwarded example_space example_store
     (replace example_const example_space [PTuple [PInt 1, PStr ''ann'']]
        [(''return_tuple'', PNone)] example_store)
     = [Insert_req 7 (PTuple [PInt 1, PStr ''ann'']) 5] \<and>
   forwarded example_space example_store
     (store example_const example_space [PTuple [PInt 1, PStr ''ann'']]
        [(''return_tuple'', PNone)] example_store)
     = [Insert_req 7 (PTuple [PInt 1, PStr ''ann'']) 1] \<and>
   forwarded example_space example_store
     (insert_op example_const example_space [PTuple [PInt 1, PStr ''ann'']]
        [(''return_tuple'', PNone)] example_store)
     = [Insert_req 7 (PTuple [PInt 1, PStr ''ann'']) 3] \<and>
   delete example_space [PInt 1, PNone] [] example_store
     = delete example_space [PInt 1] [] example_store \<and>
   forwarded example_space example_store (delete example_space [PInt 1, PNone] [] example_store)
     = [Delete_req 7 (PInt 1) (PBool True)] \<and>
   update example_space [PInt 1, PTuple [], PNone] [] example_store
     = update example_space [PInt 1, PTuple []] [] example_store \<and>
   forwarded example_space example_store
       (update example_space [PInt 1, PTuple [], PNone] [] example_store)
     = [Update_req 7 (PInt 1) (PTuple []) (PBool True)]"
  using
    explicit_None_is_omission [where pos = "[PTuple [PInt 1, PStr ''ann'']]" and kw = "[]"
      and b = "\<lparr> named = [(''self'', PNone), (''values'', PTuple [PInt 1, PStr ''ann'']),
                  (''return_tuple'', PNone)], args = [], kwargs = [] \<rparr>"
      and pos' = "[PTuple [PInt 1, PStr ''ann'']]" and kw' = "[(''return_tuple'', PNone)]"
      and b' = "\<lparr> named = [(''self'', PNone), (''values'', PTuple [PInt 1, PStr ''ann'']),
                  (''return_tuple'', PNone)], args = [], kwargs = [] \<rparr>"
      and self = example_space and \<sigma> = example_store and K = example_const]
    explicit_None_is_omission [where pos = "[PInt 1]" and kw = "[]"
      and b = "\<lparr> named = [(''self'', PNone), (''key'', PInt 1), (''return_tuple'', PNone)],
                  args = [], kwargs = [] \<rparr>"
      and pos' = "[PInt 1, PNone]" and kw' = "[]"
      and b' = "\<lparr> named = [(''self'', PNone), (''key'', PInt 1), (''return_tuple'', PNone)],
                  args = [], kwargs = [] \<rparr>"
      and self = example_space and \<sigma> = example_store]
    explicit_None_is_omission [where pos = "[PInt 1, PTuple []]" and kw = "[]"
      and b = "\<lparr> named = [(''self'', PNone), (''key'', PInt 1), (''op_list'', PTuple []),
                  (''return_tuple'', PNone)], args = [], kwargs = [] \<rparr>"
      and pos' = "[PInt 1, PTuple [], PNone]" and kw' = "[]"
      and b' = "\<lparr> named = [(''self'', PNone), (''key'', PInt 1), (''op_list'', PTuple []),
                  (''return_tuple'', PNone)], args = [], kwargs = [] \<rparr>"
      and self = example_space and \<sigma> = example_store]
  by (simp add: run_defs omitted_def supplied_def example_defs)

subsection \<open>select\<close>

lemma select_params:
  assumes "bind_method sig_select pos kw = Inr b"
  shows "param b ''values'' = (case pos of v # r \<Rightarrow> v | [] \<Rightarrow> dict_get kw ''values'' PNone)"
    and "kwargs b = filter (\<lambda>(k, v). k \<notin> {''self'', ''values''}) kw"
  using bind_args_Inr(3) [OF assms [unfolded bind_method_def], of "''values''"]
    bind_args_Inr(1) [OF assms [unfolded bind_method_def]]
  by (auto simp: sig_defs dict_get_def split: list.splits option.splits)

lemma select_option:
  assumes "bind_method sig_select pos kw = Inr b" and "k \<notin> {''self'', ''values''}"
  shows "dict_get (kwargs b) k d = dict_get kw k d"
  using assms(2) by (simp add: select_params(2) [OF assms(1)] dict_get_def map_of_filter_fst)

lemma select_forwards:
  assumes "bind_method sig_select pos kw = Inr b"
  shows "forwarded self \<sigma> (select self pos kw \<sigma>) =
     [Select_req (space_no self) (param b ''values'')
        (dict_get kw ''index'' (PInt 0)) (dict_get kw ''offset'' (PInt 0))
        (dict_get kw ''limit'' (PInt 4294967295))]"
  using assms
  by (simp add: select_def select_body_def Let_def forwarded_def send_def select_option
      split: sum.splits)

text \<open>
  Claim C5. \<^verbatim>\<open>select\<close> has one positional parameter after the receiver. A call with
  any further positional argument raises \<^verbatim>\<open>TypeError\<close> before the body runs and
  forwards nothing, whatever keywords come with it; given by name, \<^verbatim>\<open>index\<close>,
  \<^verbatim>\<open>offset\<close> and \<^verbatim>\<open>limit\<close> reach the connection.
\<close>

theorem select_options_by_name_only:
  "select self (values # x # xs) kw \<sigma> = (Inl TypeError, self, \<sigma>) \<and>
   forwarded self \<sigma> (select self (values # x # xs) kw \<sigma>) = [] \<and>
   forwarded self \<sigma>
     (select self [values] [(''index'', i), (''offset'', off), (''limit'', lim)] \<sigma>)
     = [Select_req (space_no self) values i off lim]"
  by (simp add: select_def select_body_def bind_method_def bind_args_def sig_defs param_def
      dict_get_def Let_def forwarded_def send_def)

theorem select_options_by_name_only_example:
  "select example_space [PTuple [PInt 1], PInt 2, PInt 0, PInt 10] [] example_store
     = (Inl TypeError, example_space, example_store) \<and>
   forwarded example_space example_store
     (select example_space [PTuple [PInt 1]]
        [(''index'', PInt 2), (''offset'', PInt 0), (''limit'', PInt 10)] example_store)
     = [Select_req 7 (PTuple [PInt 1]) (PInt 2) (PInt 0) (PInt 10)]"
  using
    select_options_by_name_only [of example_space "PTuple [PInt 1]" "PInt 2"
      "[PInt 0, PInt 10]" "[]" example_store "PInt 2" "PInt 0" "PInt 10"]
  by (simp add: example_space_def)

text \<open>
  Claim C6. A call to \<^verbatim>\<open>select\<close> that binds forwards one request: the space number
  of the receiver, the keys the caller gave, and for each of \<^verbatim>\<open>index\<close>, \<^verbatim>\<open>offset\<close>
  and \<^verbatim>\<open>limit\<close> the value given by name, or else 0, 0 and \<^verbatim>\<open>0xffffffff\<close>.
\<close>

theorem select_defaults:
  "(bind_method sig_select pos kw = Inr b \<longrightarrow>
      forwarded self \<sigma> (select self pos kw \<sigma>) =
        [Select_req (space_no self) (param b ''values'')
           (case map_of kw ''index'' of None \<Rightarrow> PInt 0 | Some i \<Rightarrow> i)
           (case map_of kw ''offset'' of None \<Rightarrow> PInt 0 | Some off \<Rightarrow> off)
           (case map_of kw ''limit'' of None \<Rightarrow> PInt 0xffffffff | Some lim \<Rightarrow> lim)]) \<and>
   (bind_method sig_select (values # r) kw = Inr b \<longrightarrow> param b ''values'' = values)"
  by (auto simp: select_forwards select_params(1) dict_get_def split: option.splits)

theorem select_defaults_example:
  "forwarded example_space example_store
     (select example_space [PTuple [PInt 1]] [] example_store)
     = [Select_req 7 (PTuple [PInt 1]) (PInt 0) (PInt 0) (PInt 4294967295)] \<and>
   forwarded example_space example_store
     (select example_space [PTuple [PInt 1]] [(''limit'', PInt 10)] example_store)
     = [Select_req 7 (PTuple [PInt 1]) (PInt 0) (PInt 0) (PInt 10)]"
  using
    select_defaults [of "[PTuple [PInt 1]]" "[]"
      "\<lparr> named = [(''self'', PNone), (''values'', PTuple [PInt 1])], args = [],
         kwargs = [] \<rparr>" example_space example_store]
    select_defaults [of "[PTuple [PInt 1]]" "[(''limit'', PInt 10)]"
      "\<lparr> named = [(''self'', PNone), (''values'', PTuple [PInt 1])], args = [],
         kwargs = [(''limit'', PInt 10)] \<rparr>" example_space example_store]
  by (simp add: bind_eval example_defs)

lemma select_body_reads_three:
  "select_body self values kwa \<sigma> =
   select_body self values (filter (\<lambda>(k, v). k \<in> {''index'', ''offset'', ''limit''}) kwa) \<sigma>"
  by (simp add: select_body_def dict_get_def map_of_filter_fst)

lemma bind_select_extra:
  assumes "k \<notin> {''self'', ''values''}" and "map_of (front @ rear) k = None"
  shows "bind_method sig_select pos (front @ (k, v) # rear) =
     (case bind_method sig_select pos (front @ rear) of
        Inl e \<Rightarrow> Inl e
      | Inr b \<Rightarrow> Inr (b\<lparr>kwargs :=
                 filter (\<lambda>(k', v'). k' \<notin> {''self'', ''values''}) (front @ (k, v) # rear)\<rparr>))"
proof -
  from assms(2) have fresh: "k \<notin> fst ` set front" "k \<notin> fst ` set rear"
    by (auto simp: map_of_eq_None_iff)
  show ?thesis
    using assms(1) fresh
    by (cases pos) (auto simp: bind_method_def bind_args_def sig_select_def Let_def)
qed

lemma map_of_skip:
  "j \<noteq> k \<Longrightarrow> map_of (front @ (k, v) # rear) j = map_of (front @ rear) j"
  by (simp add: map_add_def split: option.splits)

lemma select_outcome:
  assumes "bind_method sig_select pos kw = Inr b"
  shows "select self pos kw \<sigma> =
     (case send (connection self)
             (Select_req (space_no self) (param b ''values'')
                (case map_of kw ''index'' of None \<Rightarrow> PInt 0 | Some i \<Rightarrow> i)
                (case map_of kw ''offset'' of None \<Rightarrow> PInt 0 | Some off \<Rightarrow> off)
                (case map_of kw ''limit'' of None \<Rightarrow> PInt 0xffffffff | Some lim \<Rightarrow> lim)) \<sigma> of
        (res, \<sigma>') \<Rightarrow> (res, self, \<sigma>'))"
proof -
  have opt: "dict_get (kwargs b) j d = (case map_of kw j of None \<Rightarrow> d | Some x \<Rightarrow> x)"
    if "j \<in> {''index'', ''offset'', ''limit''}" for j d
    using that select_option [OF assms, of j d]
    by (auto simp: dict_get_def split: option.splits)
  show ?thesis
    by (simp add: select_def assms select_body_def Let_def opt split: prod.splits)
qed

text \<open>
  Claim C9. The body of \<^verbatim>\<open>select\<close> reads \<^verbatim>\<open>index\<close>, \<^verbatim>\<open>offset\<close> and \<^verbatim>\<open>limit\<close>
  out of \<^verbatim>\<open>**kwargs\<close> and nothing else: every other entry is without effect. For a
  caller, adding a keyword argument under any other name, anywhere among the keywords,
  leaves the outcome of the call as it was, errors included; the name is one that
  \<^verbatim>\<open>**kwargs\<close> can receive, so neither \<^verbatim>\<open>self\<close> nor \<^verbatim>\<open>values\<close>, and not one the
  call has already. When the call without the added keyword binds, the call with it
  raises nothing of its own: it returns what the connection answers to one request, in
  which each of \<^verbatim>\<open>index\<close>, \<^verbatim>\<open>offset\<close> and \<^verbatim>\<open>limit\<close> is the value the other keywords
  give it, or else its default 0, 0 and \<^verbatim>\<open>0xffffffff\<close>; the value given under the
  unrecognized name reaches no option.
\<close>

theorem select_ignores_unknown_options:
  "select_body self values kwa \<sigma> =
     select_body self values
       (filter (\<lambda>(k, v). k \<in> {''index'', ''offset'', ''limit''}) kwa) \<sigma> \<and>
   (k \<notin> {''index'', ''offset'', ''limit''} \<and> k \<notin> {''self'', ''values''} \<and>
    map_of (front @ rear) k = None \<longrightarrow>
      select self pos (front @ (k, v) # rear) \<sigma> = select self pos (front @ rear) \<sigma>) \<and>
   (k \<notin> {''index'', ''offset'', ''limit''} \<and> k \<notin> {''self'', ''values''} \<and>
    map_of (front @ rear) k = None \<and> bind_method sig_select pos (front @ rear) = Inr b \<longrightarrow>
      select self pos (front @ (k, v) # rear) \<sigma> =
        (case send (connection self)
                (Select_req (space_no self) (param b ''values'')
                   (case map_of (front @ rear) ''index'' of None \<Rightarrow> PInt 0 | Some i \<Rightarrow> i)
                   (case map_of (front @ rear) ''offset'' of None \<Rightarrow> PInt 0 | Some off \<Rightarrow> off)
                   (case map_of (front @ rear) ''limit'' of
                      None \<Rightarrow> PInt 0xffffffff
                    | Some lim \<Rightarrow> lim)) \<sigma> of
           (res, \<sigma>') \<Rightarrow> (res, self, \<sigma>')))"
proof -
  have same: "select self pos (front @ (k, v) # rear) \<sigma> = select self pos (front @ rear) \<sigma>"
    if k: "k \<notin> {''index'', ''offset'', ''limit''}" "k \<notin> {''self'', ''values''}"
      and fresh: "map_of (front @ rear) k = None"
  proof (cases "bind_method sig_select pos (front @ rear)")
    case (Inl e)
    then show ?thesis
      by (simp add: select_def bind_select_extra [OF k(2) fresh])
  next
    case (Inr b)
    define kwx where
      "kwx = filter (\<lambda>(k', v'). k' \<notin> {''self'', ''values''}) (front @ (k, v) # rear)"
    have bind: "bind_method sig_select pos (front @ (k, v) # rear) = Inr (b\<lparr>kwargs := kwx\<rparr>)"
      unfolding kwx_def bind_select_extra [OF k(2) fresh] Inr by simp
    have opt: "dict_get kwx j d = dict_get (kwargs b) j d"
      if "j \<in> {''index'', ''offset'', ''limit''}" for j d
    proof -
      from that k(1) have "j \<noteq> k" by auto
      with that show ?thesis
        unfolding kwx_def select_params(2) [OF Inr] dict_get_def map_of_filter_fst
        by (auto simp: map_of_skip simp del: map_of_append)
    qed
    have par: "param (b\<lparr>kwargs := kwx\<rparr>) p = param b p" for p
      by (simp add: param_def)
    show ?thesis
      by (simp add: select_def bind Inr select_body_def opt par)
  qed
  show ?thesis
  proof (intro conjI impI; (elim conjE)?)
    show "select_body self values kwa \<sigma> =
       select_body self values
         (filter (\<lambda>(k, v). k \<in> {''index'', ''offset'', ''limit''}) kwa) \<sigma>"
      by (rule select_body_reads_three)
  next
    assume "k \<notin> {''index'', ''offset'', ''limit''}" "k \<notin> {''self'', ''values''}"
      "map_of (front @ rear) k = None"
    then show "select self pos (front @ (k, v) # rear) \<sigma> = select self pos (front @ rear) \<sigma>"
      by (rule same)
  next
    assume k: "k \<notin> {''index'', ''offset'', ''limit''}" "k \<notin> {''self'', ''values''}"
      "map_of (front @ rear) k = None"
      and ok: "bind_method sig_select pos (front @ rear) = Inr b"
    show "select self pos (front @ (k, v) # rear) \<sigma> =
        (case send (connection self)
                (Select_req (space_no self) (param b ''values'')
                   (case map_of (front @ rear) ''index'' of None \<Rightarrow> PInt 0 | Some i \<Rightarrow> i)
                   (case map_of (front @ rear) ''offset'' of None \<Rightarrow> PInt 0 | Some off \<Rightarrow> off)
                   (case map_of (front @ rear) ''limit'' of
                      None \<Rightarrow> PInt 0xffffffff
                    | Some lim \<Rightarrow> lim)) \<sigma> of
           (res, \<sigma>') \<Rightarrow> (res, self, \<sigma>'))"
      unfolding same [OF k] by (rule select_outcome [OF ok])
  qed
qed

text \<open>
  The misspelt \<^verbatim>\<open>indx=3\<close> raises nothing and the request carries index 0.
\<close>

theorem select_ignores_unknown_options_example:
  "select example_space [PTuple [PInt 1]] [(''indx'', PInt 3), (''limit'', PInt 10)] example_store
     = select example_space [PTuple [PInt 1]] [(''limit'', PInt 10)] example_store \<and>
   fst (select example_space [PTuple [PInt 1]] [(''indx'', PInt 3), (''limit'', PInt 10)]
          example_store)
     = Inr (PTuple [PTuple [PInt 1, PStr ''ann'']]) \<and>
   forwarded example_space example_store
     (select example_space [PTuple [PInt 1]] [(''indx'', PInt 3), (''limit'', PInt 10)]
        example_store)
     = [Select_req 7 (PTuple [PInt 1]) (PInt 0) (PInt 0) (PInt 10)]"
  using
    select_ignores_unknown_options [where front = "[]" and rear = "[(''limit'', PInt 10)]"
      and k = "''indx''" and v = "PInt 3" and pos = "[PTuple [PInt 1]]"
      and b = "\<lparr> named = [(''self'', PNone), (''values'', PTuple [PInt 1])], args = [],
                  kwargs = [(''limit'', PInt 10)] \<rparr>"
      and self = example_space and \<sigma> = example_store]
  by (simp add: run_defs example_defs)

subsection \<open>The space number\<close>

lemma call_forwards:
  assumes "bind_method sig_call pos kw = Inr b"
  shows "forwarded self \<sigma> (call self pos kw \<sigma>) =
     [Call_req (param b ''func_name'') (args b) (kwargs b)]"
  using assms
  by (simp add: call_def call_body_def Let_def forwarded_def send_def split: sum.splits)

lemma space_init_Inr:
  "space_init conn name \<sigma> = Inr self \<Longrightarrow>
   schema_space_no (\<sigma> conn) name = Inr (space_no self) \<and> connection self = conn"
  by (auto simp: space_init_def split: sum.splits)

text \<open>
  Claim C7, as stated, has every operation use the stored space number. \<^verbatim>\<open>call\<close>
  does not: the request it forwards is made of the caller's arguments alone, and the call
  has the same outcome on a receiver with another space number.
\<close>

theorem call_forwards_no_space_number:
  "space_init 0 (PStr ''users'') example_store = Inr example_space \<and>
   forwarded example_space example_store
     (call example_space [PStr ''f'', PInt 3] [] example_store)
     = [Call_req (PStr ''f'') [PInt 3] []] \<and>
   map request_space
     (forwarded example_space example_store
        (call example_space [PStr ''f'', PInt 3] [] example_store))
     \<noteq> [Some (space_no example_space)] \<and>
   call (example_space\<lparr>space_no := 8\<rparr>) [PStr ''f'', PInt 3] [] example_store
     = (fst (call example_space [PStr ''f'', PInt 3] [] example_store),
        example_space\<lparr>space_no := 8\<rparr>,
        snd (snd (call example_space [PStr ''f'', PInt 3] [] example_store)))"
  by (simp add: run_defs example_defs space_init_def)

text \<open>
  Claim C7, amended. For every name or number the schema lookup resolves, \<^verbatim>\<open>__init__\<close>
  succeeds and stores the number the lookup returns, together with the connection; a
  \<^verbatim>\<open>Space\<close> is constructed in no other way. In any later store, every \<^verbatim>\<open>replace\<close>,
  \<^verbatim>\<open>store\<close>, \<^verbatim>\<open>insert\<close>, \<^verbatim>\<open>delete\<close>, \<^verbatim>\<open>update\<close> and \<^verbatim>\<open>select\<close> on it that
  binds forwards one request, with the stored number as its space.
\<close>

theorem stored_space_number:
  "(schema_space_no (\<tau> conn) name = Inr n \<longrightarrow>
      space_init conn name \<tau> = Inr \<lparr> connection = conn, space_no = n \<rparr>) \<and>
   (space_init conn name \<tau> = Inr self \<longrightarrow>
      schema_space_no (\<tau> conn) name = Inr (space_no self) \<and>
      connection self = conn \<and>
      (bind_method sig_values_rt pos kw = Inr b \<longrightarrow>
         forwarded self \<sigma> (replace K self pos kw \<sigma>) =
           [Insert_req (space_no self) (param b ''values'')
              ((if truthy (resolve_return_tuple self (param b ''return_tuple'') \<sigma>)
                then BOX_RETURN_TUPLE K else 0) OR BOX_REPLACE K)] \<and>
         forwarded self \<sigma> (store K self pos kw \<sigma>) =
           [Insert_req (space_no self) (param b ''values'')
              (if truthy (resolve_return_tuple self (param b ''return_tuple'') \<sigma>)
               then BOX_RETURN_TUPLE K else 0)] \<and>
         forwarded self \<sigma> (insert_op K self pos kw \<sigma>) =
           [Insert_req (space_no self) (param b ''values'')
              ((if truthy (resolve_return_tuple self (param b ''return_tuple'') \<sigma>)
                then BOX_RETURN_TUPLE K else 0) OR BOX_ADD K)]) \<and>
      (bind_method sig_delete pos kw = Inr b \<longrightarrow>
         forwarded self \<sigma> (delete self pos kw \<sigma>) =
           [Delete_req (space_no self) (param b ''key'')
              (resolve_return_tuple self (param b ''return_tuple'') \<sigma>)]) \<and>
      (bind_method sig_update pos kw = Inr b \<longrightarrow>
         forwarded self \<sigma> (update self pos kw \<sigma>) =
           [Update_req (space_no self) (param b ''key'') (param b ''op_list'')
              (resolve_return_tuple self (param b ''return_tuple'') \<sigma>)]) \<and>
      (bind_method sig_select pos kw = Inr b \<longrightarrow>
         forwarded self \<sigma> (select self pos kw \<sigma>) =
           [Select_req (space_no self) (param b ''values'')
              (dict_get kw ''index'' (PInt 0)) (dict_get kw ''offset'' (PInt 0))
              (dict_get kw ''limit'' (PInt 0xffffffff))]))"
  by (simp add: space_init_Inr space_init_def replace_forwards store_forwards insert_forwards
      delete_forwards update_forwards select_forwards)

theorem stored_space_number_example:
  "schema_space_no (example_store 0) (PStr ''users'') = Inr 7 \<and>
   space_init 0 (PStr ''users'') example_store = Inr \<lparr> connection = 0, space_no = 7 \<rparr> \<and>
   space_init 0 (PInt 7) example_store = Inr \<lparr> connection = 0, space_no = 7 \<rparr> \<and>
   forwarded example_space (set_return_tuple 0 False example_store)
     (insert_op example_const example_space [PTuple [PInt 1, PStr ''ann'']] []
        (set_return_tuple 0 False example_store))
     = [Insert_req 7 (PTuple [PInt 1, PStr ''ann'']) 2] \<and>
   forwarded example_space example_store (delete example_space [PInt 1] [] example_store)
     = [Delete_req 7 (PInt 1) (PBool True)] \<and>
   forwarded example_space example_store
     (update example_space [PInt 1, PTuple []] [] example_store)
     = [Update_req 7 (PInt 1) (PTuple []) (PBool True)] \<and>
   forwarded example_space example_store
     (select example_space [PTuple [PInt 1]] [] example_store)
     = [Select_req 7 (PTuple [PInt 1]) (PInt 0) (PInt 0) (PInt 4294967295)]"
  using
    stored_space_number [where conn = 0 and name = "PInt 7" and \<tau> = example_store
      and n = 7 and self = example_space and pos = "[]" and kw = "[]"]
    stored_space_number [where conn = 0 and name = "PStr ''users''" and \<tau> = example_store
      and n = 7
      and self = example_space and pos = "[PTuple [PInt 1, PStr ''ann'']]" and kw = "[]"
      and b = "\<lparr> named = [(''self'', PNone), (''values'', PTuple [PInt 1, PStr ''ann'']),
                  (''return_tuple'', PNone)], args = [], kwargs = [] \<rparr>"
      and \<sigma> = "set_return_tuple 0 False example_store" and K = example_const]
    stored_space_number [where conn = 0 and name = "PStr ''users''" and \<tau> = example_store
      and n = 7
      and self = example_space and pos = "[PInt 1]" and kw = "[]"
      and b = "\<lparr> named = [(''self'', PNone), (''key'', PInt 1), (''return_tuple'', PNone)],
                  args = [], kwargs = [] \<rparr>"
      and \<sigma> = example_store]
    stored_space_number [where conn = 0 and name = "PStr ''users''" and \<tau> = example_store
      and n = 7
      and self = example_space and pos = "[PInt 1, PTuple []]" and kw = "[]"
      and b = "\<lparr> named = [(''self'', PNone), (''key'', PInt 1), (''op_list'', PTuple []),
                  (''return_tuple'', PNone)], args = [], kwargs = [] \<rparr>"
      and \<sigma> = example_store]
    stored_space_number [where conn = 0 and name = "PStr ''users''" and \<tau> = example_store
      and n = 7
      and self = example_space and pos = "[PTuple [PInt 1]]" and kw = "[]"
      and b = "\<lparr> named = [(''self'', PNone), (''values'', PTuple [PInt 1])], args = [],
                  kwargs = [] \<rparr>"
      and \<sigma> = example_store]
  by (simp add: bind_eval dict_get_def set_return_tuple_def example_defs space_init_def)

end
